theory Spec2Isabelle
  imports Complex_Main
begin

section \<open>Python values shared by the modules\<close>

text \<open>
  Voxel coordinates are Python ints (unbounded), modelled as \<open>int\<close>; a landmark or voxel
  position is the tuple \<open>(z, y, x)\<close>. Python floats are modelled as \<open>real\<close>: the
  properties below depend on comparisons and on which branch is taken, not on rounding
  of the arithmetic.
\<close>

type_synonym voxel = "int \<times> int \<times> int"

type_synonym vec3 = "real \<times> real \<times> real"

text \<open>
  Exceptions are values. \<open>ValueError\<close>, \<open>KeyError\<close>, \<open>IndexError\<close>, \<open>TypeError\<close> and
  \<open>FileNotFoundError\<close> are raised by the repository's own statements (a \<open>raise\<close>, a
  dict subscript, a \<open>pop\<close>, a \<open>tuple(...)\<close>, an \<open>open\<close>); \<open>LibraryError\<close> stands for
  any exception raised inside numpy, scipy or SimpleITK, whatever its Python class.
\<close>

datatype py_error =
    ValueError string
  | KeyError string
  | IndexError
  | TypeError
  | FileNotFoundError string
  | LibraryError string

text \<open>Decimal rendering of an int, as an f-string \<open>{region_id}\<close> does.\<close>

function string_of_nat :: "nat \<Rightarrow> string" where
  "string_of_nat n =
     (if n < 10 then [''0123456789'' ! n]
      else string_of_nat (n div 10) @ [''0123456789'' ! (n mod 10)])"
  by pat_completeness auto
termination
  by (relation "measure (\<lambda>n. n)") auto

definition str_int :: "int \<Rightarrow> string" where
  "str_int i = (if i < 0 then ''-'' @ string_of_nat (nat (- i)) else string_of_nat (nat i))"

text \<open>
  Python 3 \<open>round(v)\<close> on a float: to the nearest integer, ties to the even one.
\<close>

definition py_round :: "real \<Rightarrow> int" where
  "py_round v =
     (let f = \<lfloor>v\<rfloor>; d = v - of_int f
      in if d < 1 / 2 then f
         else if 1 / 2 < d then f + 1
         else if even f then f else f + 1)"

section \<open>fiber\_tracker.py: AllenCCFOntology\<close>

text \<open>
  The values of \<open>id_to_info\<close> are dicts with the keys \<open>id\<close>, \<open>name\<close>, \<open>acronym\<close>,
  \<open>parent_id\<close>, \<open>color_hex\<close> (and \<open>depth\<close> for parsed records; the two synthetic records
  of \<open>get_region_info\<close> have none). \<open>parent_id\<close> is \<open>None\<close> or an id.
\<close>

record region_info =
  region_id :: int
  name :: string
  acronym :: string
  parent_id :: "int option"
  color_hex :: string
  depth :: "int option"

type_synonym id_to_info = "int \<rightharpoonup> region_info"

definition get_region_info :: "id_to_info \<Rightarrow> int \<Rightarrow> region_info" where
  "get_region_info ont rid =
     (if rid = 0 then
        \<lparr>region_id = 0, name = ''Outside Brain'', acronym = ''OUT'', parent_id = None,
         color_hex = ''000000'', depth = None\<rparr>
      else
        (case ont rid of
           Some info \<Rightarrow> info
         | None \<Rightarrow>
             \<lparr>region_id = rid, name = ''Unknown_Region_'' @ str_int rid,
              acronym = ''UNK'' @ str_int rid, parent_id = None,
              color_hex = ''FFFFFF'', depth = None\<rparr>))"

text \<open>
  The \<open>while\<close> loop of \<open>get_region_hierarchy\<close>, with its variables \<open>current_id\<close>,
  \<open>depth\<close> and \<open>hierarchy\<close> as arguments. The \<open>break\<close> on the root id 997 is the
  inner \<open>if\<close>.
\<close>

function hierarchy_loop ::
  "id_to_info \<Rightarrow> int \<Rightarrow> int option \<Rightarrow> int \<Rightarrow> string list \<Rightarrow> string list" where
  "hierarchy_loop ont max_depth current_id dep hierarchy =
     (case current_id of
        None \<Rightarrow> hierarchy
      | Some c \<Rightarrow>
          if dep < max_depth then
            (if parent_id (get_region_info ont c) = Some 997
             then hierarchy @ [name (get_region_info ont c)]
             else hierarchy_loop ont max_depth (parent_id (get_region_info ont c)) (dep + 1)
                    (hierarchy @ [name (get_region_info ont c)]))
          else hierarchy)"
  by pat_completeness auto
termination
  by (relation "measure (\<lambda>(ont, max_depth, current_id, dep, hierarchy). nat (max_depth - dep))")
     auto

definition get_region_hierarchy :: "id_to_info \<Rightarrow> int \<Rightarrow> int \<Rightarrow> string list" where
  "get_region_hierarchy ont rid max_depth = hierarchy_loop ont max_depth (Some rid) 0 []"

section \<open>fiber\_tracker.py: FiberTracker\<close>

text \<open>
  The annotation volume is a 3D numpy array of region ids: its \<open>shape\<close> and the value
  stored at each in-range index. \<open>transform\<close> is the loaded SimpleITK transform, seen
  through its \<open>TransformPoint\<close> (which may raise).
\<close>

record annotation =
  shape :: "int \<times> int \<times> int"
  voxels :: "int \<Rightarrow> int \<Rightarrow> int \<Rightarrow> int"

record fiber_tracker =
  ccf_annotation :: "annotation option"
  ontology :: id_to_info
  transform :: "(vec3 \<Rightarrow> py_error + vec3) option"
  spacing :: real
  use_registered :: bool

definition transform_point_to_ccf :: "fiber_tracker \<Rightarrow> int \<Rightarrow> int \<Rightarrow> int \<Rightarrow> voxel" where
  "transform_point_to_ccf t z y x =
     (if use_registered t then (z, y, x)
      else
        (case transform t of
           None \<Rightarrow> (z, y, x)
         | Some transform_point \<Rightarrow>
             (case transform_point
                     (of_int x * spacing t, of_int y * spacing t, of_int z * spacing t) of
                Inl e \<Rightarrow> (z, y, x)
              | Inr (px, py, pz) \<Rightarrow>
                  if spacing t = 0 then (z, y, x)
                  else (py_round (pz / spacing t), py_round (py / spacing t),
                        py_round (px / spacing t)))))"

text \<open>The dict returned by \<open>get_region_at_point\<close>.\<close>

record region_at_point =
  res_id :: "int option"
  res_name :: string
  res_acronym :: string
  res_hierarchy :: "string list"
  res_color_hex :: "string option"
  res_ccf_coords :: "voxel option"

definition out_of_bounds :: "voxel \<Rightarrow> region_at_point" where
  "out_of_bounds c =
     \<lparr>res_id = Some (- 1), res_name = ''Out of Bounds'', res_acronym = ''OOB'',
      res_hierarchy = [], res_color_hex = None, res_ccf_coords = Some c\<rparr>"

definition outside_brain :: "voxel \<Rightarrow> region_at_point" where
  "outside_brain c =
     \<lparr>res_id = Some 0, res_name = ''Outside Brain'', res_acronym = ''OUT'',
      res_hierarchy = [], res_color_hex = None, res_ccf_coords = Some c\<rparr>"

text \<open>
  The lookup at a coordinate that is already in reference (CCF) space: the part of
  \<open>get_region_at_point\<close> after the call of \<open>transform_point_to_ccf\<close>.
\<close>

definition lookup_ccf :: "annotation \<Rightarrow> id_to_info \<Rightarrow> voxel \<Rightarrow> region_at_point" where
  "lookup_ccf ann ont c =
     (case c of (z_ccf, y_ccf, x_ccf) \<Rightarrow>
        (case shape ann of (s0, s1, s2) \<Rightarrow>
           if z_ccf < 0 \<or> z_ccf \<ge> s0 \<or> y_ccf < 0 \<or> y_ccf \<ge> s1 \<or> x_ccf < 0 \<or> x_ccf \<ge> s2
           then out_of_bounds c
           else
             (let rid = voxels ann z_ccf y_ccf x_ccf
              in if rid = 0 then outside_brain c
                 else
                   \<lparr>res_id = Some rid,
                    res_name = name (get_region_info ont rid),
                    res_acronym = acronym (get_region_info ont rid),
                    res_hierarchy = get_region_hierarchy ont rid 10,
                    res_color_hex = Some (color_hex (get_region_info ont rid)),
                    res_ccf_coords = Some c\<rparr>)))"

definition get_region_at_point :: "fiber_tracker \<Rightarrow> int \<Rightarrow> int \<Rightarrow> int \<Rightarrow> region_at_point" where
  "get_region_at_point t z y x =
     (case ccf_annotation t of
        None \<Rightarrow>
          \<lparr>res_id = None, res_name = ''N/A (No CCF annotation loaded)'', res_acronym = ''N/A'',
           res_hierarchy = [], res_color_hex = None, res_ccf_coords = None\<rparr>
      | Some ann \<Rightarrow> lookup_ccf ann (ontology t) (transform_point_to_ccf t z y x))"

section \<open>landmark\_registration.py: LandmarkSelector\<close>

text \<open>
  The selector keeps three parallel lists (moving landmarks, fixed landmarks, names of
  the completed pairs) and, for each landmark, the matplotlib artists drawn for it.
  An artist pair \<open>{'marker': ..., 'text': ...}\<close> is recorded by where it was drawn and
  the number it shows.
\<close>

record plot =
  marker :: "int \<times> int"
  text_label :: string

record landmark_selector =
  moving_landmarks :: "voxel list"
  fixed_landmarks :: "voxel list"
  landmark_names :: "string list"
  moving_plots :: "plot list"
  fixed_plots :: "plot list"
  moving_slice :: int
  fixed_slice :: int
  view :: string
  moving_name :: string
  fixed_name :: string

datatype axes = AxMoving | AxFixed | AxOther

record mouse_event =
  inaxes :: "axes option"
  button :: int
  xdata :: real
  ydata :: real

text \<open>Python's \<open>int(v)\<close> on a float truncates towards zero.\<close>

definition py_int :: "real \<Rightarrow> int" where
  "py_int v = (if 0 \<le> v then \<lfloor>v\<rfloor> else \<lceil>v\<rceil>)"

text \<open>The conversion of a 2D click to \<open>(Z, Y, X)\<close> for the current view.\<close>

definition click_landmark :: "string \<Rightarrow> int \<Rightarrow> int \<Rightarrow> int \<Rightarrow> voxel" where
  "click_landmark v slice y x =
     (if v = ''Z'' then (slice, y, x)
      else if v = ''Y'' then (y, slice, x)
      else (y, x, slice))"

definition onclick :: "landmark_selector \<Rightarrow> mouse_event \<Rightarrow> landmark_selector" where
  "onclick s event =
     (if inaxes event = None \<or> button event \<noteq> 1 then s
      else
        (let x = py_int (xdata event); y = py_int (ydata event)
         in if inaxes event = Some AxMoving then
              (let landmark = click_landmark (view s) (moving_slice s) y x;
                   landmark_id = length (moving_landmarks s) + 1
               in s\<lparr>moving_landmarks := moving_landmarks s @ [landmark],
                     moving_plots := moving_plots s
                        @ [\<lparr>marker = (x, y), text_label = str_int (int landmark_id)\<rparr>]\<rparr>)
            else if inaxes event = Some AxFixed then
              (if length (fixed_landmarks s) \<ge> length (moving_landmarks s) then s
               else
                 (let landmark = click_landmark (view s) (fixed_slice s) y x;
                      landmark_id = length (fixed_landmarks s) + 1
                  in s\<lparr>fixed_landmarks := fixed_landmarks s @ [landmark],
                        landmark_names := landmark_names s
                           @ [''Point_'' @ str_int (int landmark_id)],
                        fixed_plots := fixed_plots s
                           @ [\<lparr>marker = (x, y), text_label = str_int (int landmark_id)\<rparr>]\<rparr>))
            else s))"

text \<open>
  \<open>on_undo\<close>. \<open>list.pop()\<close> removes the last element and raises IndexError on an empty
  list; the landmark lists are popped before the plot lists, so the state reached when
  a plot list is empty (landmarks loaded from a file have no plots) is returned with
  the error. The final \<open>update_display()\<close> only redraws and is left out.
\<close>

definition on_undo :: "landmark_selector \<Rightarrow> py_error option \<times> landmark_selector" where
  "on_undo s =
     (if moving_landmarks s \<noteq> [] \<and> fixed_landmarks s \<noteq> [] then
        (let s1 = s\<lparr>moving_landmarks := butlast (moving_landmarks s),
                     fixed_landmarks := butlast (fixed_landmarks s)\<rparr>;
             s2 = (if landmark_names s1 \<noteq> []
                   then s1\<lparr>landmark_names := butlast (landmark_names s1)\<rparr> else s1)
         in if moving_plots s2 = [] then (Some IndexError, s2)
            else
              (let s3 = s2\<lparr>moving_plots := butlast (moving_plots s2)\<rparr>
               in if fixed_plots s3 = [] then (Some IndexError, s3)
                  else (None, s3\<lparr>fixed_plots := butlast (fixed_plots s3)\<rparr>)))
      else if moving_landmarks s \<noteq> [] then
        (let s1 = s\<lparr>moving_landmarks := butlast (moving_landmarks s)\<rparr>
         in if moving_plots s1 = [] then (Some IndexError, s1)
            else (None, s1\<lparr>moving_plots := butlast (moving_plots s1)\<rparr>))
      else (None, s))"

text \<open>The invariant of the selector: no more fixed than moving landmarks.\<close>

definition pairing_invariant :: "landmark_selector \<Rightarrow> bool" where
  "pairing_invariant s \<longleftrightarrow> length (fixed_landmarks s) \<le> length (moving_landmarks s)"

subsection \<open>Saving and loading landmarks\<close>

text \<open>
  The data handed to \<open>json.dump\<close> and returned by \<open>json.load\<close>: ints, strings, lists and
  dicts with string keys. For such data \<open>json.load\<close> returns what \<open>json.dump\<close> wrote
  (tuples have become lists before the dump), so a file's content is recorded as the
  value itself; the byte format is not modelled.
\<close>

datatype json =
    JInt int
  | JStr string
  | JList "json list"
  | JObj "(string \<times> json) list"

type_synonym files = "string \<rightharpoonup> json"

text \<open>\<open>list(lm)\<close> of a landmark tuple.\<close>

definition list_of_landmark :: "voxel \<Rightarrow> json" where
  "list_of_landmark lm = (case lm of (z, y, x) \<Rightarrow> JList [JInt z, JInt y, JInt x])"

definition save_landmarks :: "landmark_selector \<Rightarrow> string \<Rightarrow> files \<Rightarrow> files" where
  "save_landmarks s filepath fs =
     fs(filepath \<mapsto>
        JObj [(''moving_landmarks'', JList (map list_of_landmark (moving_landmarks s))),
              (''fixed_landmarks'', JList (map list_of_landmark (fixed_landmarks s))),
              (''landmark_names'', JList (map JStr (landmark_names s))),
              (''moving_name'', JStr (moving_name s)),
              (''fixed_name'', JStr (fixed_name s)),
              (''num_pairs'', JInt (int (length (fixed_landmarks s)))),
              (''coordinate_convention'', JStr ''Z, Y, X'')])"

text \<open>
  \<open>tuple(lm)\<close> of a loaded entry. The selector's landmarks are triples of ints; an
  entry of any other form has no counterpart in that type and is reported as TypeError.
\<close>

fun tuple_of_json :: "json \<Rightarrow> py_error + voxel" where
  "tuple_of_json (JList [JInt z, JInt y, JInt x]) = Inr (z, y, x)"
| "tuple_of_json _ = Inl TypeError"

fun name_of_json :: "json \<Rightarrow> py_error + string" where
  "name_of_json (JStr n) = Inr n"
| "name_of_json _ = Inl TypeError"

text \<open>A list comprehension whose body may raise: the first error ends it.\<close>

fun comprehension :: "('a \<Rightarrow> py_error + 'b) \<Rightarrow> 'a list \<Rightarrow> py_error + 'b list" where
  "comprehension f [] = Inr []"
| "comprehension f (x # xs) =
     (case f x of
        Inl e \<Rightarrow> Inl e
      | Inr y \<Rightarrow> (case comprehension f xs of Inl e \<Rightarrow> Inl e | Inr ys \<Rightarrow> Inr (y # ys)))"

definition landmarks_of_json :: "string \<Rightarrow> (string \<times> json) list \<Rightarrow> py_error + voxel list" where
  "landmarks_of_json key data =
     (case map_of data key of
        None \<Rightarrow> Inl (KeyError key)
      | Some (JList lms) \<Rightarrow> comprehension tuple_of_json lms
      | Some _ \<Rightarrow> Inl TypeError)"

definition names_of_json :: "(string \<times> json) list \<Rightarrow> py_error + string list" where
  "names_of_json data =
     (case map_of data ''landmark_names'' of
        None \<Rightarrow> Inr []
      | Some (JList ns) \<Rightarrow> comprehension name_of_json ns
      | Some _ \<Rightarrow> Inl TypeError)"

text \<open>
  \<open>load_landmarks\<close> assigns the three lists and returns the moving and fixed ones.
\<close>

definition load_landmarks ::
  "landmark_selector \<Rightarrow> string \<Rightarrow> files
     \<Rightarrow> py_error + (landmark_selector \<times> voxel list \<times> voxel list)" where
  "load_landmarks s filepath fs =
     (case fs filepath of
        None \<Rightarrow> Inl (FileNotFoundError filepath)
      | Some (JObj data) \<Rightarrow>
          (case landmarks_of_json ''moving_landmarks'' data of
             Inl e \<Rightarrow> Inl e
           | Inr moving \<Rightarrow>
               (case landmarks_of_json ''fixed_landmarks'' data of
                  Inl e \<Rightarrow> Inl e
                | Inr fixed \<Rightarrow>
                    (case names_of_json data of
                       Inl e \<Rightarrow> Inl e
                     | Inr names \<Rightarrow>
                         Inr (s\<lparr>moving_landmarks := moving, fixed_landmarks := fixed,
                                 landmark_names := names\<rparr>, moving, fixed))))
      | Some _ \<Rightarrow> Inl TypeError)"

section \<open>landmark\_registration.py: LandmarkRegistration\<close>

text \<open>
  The SimpleITK calls of \<open>landmark_registration\<close>, as parameters: the image conversion
  of \<open>numpy_to_sitk\<close>, \<open>LandmarkBasedTransformInitializer\<close> on a transform of the
  requested kind, \<open>TransformPoint\<close>, and the resampling filter. Each may raise; the
  string is the library's message.
\<close>

record ('img, 'simg, 'tfm) sitk =
  get_image_from_array :: "'img \<Rightarrow> vec3 \<Rightarrow> string + 'simg"
  landmark_initializer :: "string \<Rightarrow> real list \<Rightarrow> real list \<Rightarrow> string + 'tfm"
  transform_point :: "'tfm \<Rightarrow> vec3 \<Rightarrow> vec3"
  resample :: "'simg \<Rightarrow> 'simg \<Rightarrow> 'tfm \<Rightarrow> string + 'img"

record metrics =
  errors :: "real list"
  mean_error :: real
  std_error :: real
  max_error :: real
  min_error :: real

definition min_landmarks :: "string \<rightharpoonup> nat" where
  "min_landmarks = [''rigid'' \<mapsto> 3, ''similarity'' \<mapsto> 3, ''affine'' \<mapsto> 4]"

text \<open>\<open>min_landmarks.get(transform_type, 4)\<close>.\<close>

definition required_landmarks :: "string \<Rightarrow> nat" where
  "required_landmarks transform_type =
     (case min_landmarks transform_type of Some n \<Rightarrow> n | None \<Rightarrow> 4)"

text \<open>
  The \<open>raise\<close> of the landmark count check. Its message subscripts \<open>min_landmarks\<close>, so
  for a kind that is not a key the statement raises KeyError instead.
\<close>

definition too_few_landmarks :: "string \<Rightarrow> py_error" where
  "too_few_landmarks transform_type =
     (case min_landmarks transform_type of
        Some n \<Rightarrow>
          ValueError (''Need at least '' @ str_int (int n) @ '' landmark pairs for ''
                      @ transform_type @ '' registration'')
      | None \<Rightarrow> KeyError transform_type)"

text \<open>\<open>(Z, Y, X)\<close> voxel to physical \<open>(x, y, z)\<close>.\<close>

definition physical :: "voxel \<Rightarrow> vec3 \<Rightarrow> vec3" where
  "physical lm sp =
     (case lm of (z, y, x) \<Rightarrow>
        (case sp of (s0, s1, s2) \<Rightarrow> (of_int x * s0, of_int y * s1, of_int z * s2)))"

definition list3 :: "vec3 \<Rightarrow> real list" where
  "list3 p = (case p of (a, b, c) \<Rightarrow> [a, b, c])"

definition euclidean :: "vec3 \<Rightarrow> vec3 \<Rightarrow> real" where
  "euclidean p q =
     (case p of (p0, p1, p2) \<Rightarrow>
        (case q of (q0, q1, q2) \<Rightarrow> sqrt ((p0 - q0)\<^sup>2 + (p1 - q1)\<^sup>2 + (p2 - q2)\<^sup>2)))"

definition compute_landmark_error ::
  "('tfm \<Rightarrow> vec3 \<Rightarrow> vec3) \<Rightarrow> voxel list \<Rightarrow> voxel list \<Rightarrow> 'tfm \<Rightarrow> vec3 \<Rightarrow> vec3 \<Rightarrow> real list" where
  "compute_landmark_error tp moving fixed tfm moving_spacing fixed_spacing =
     map (\<lambda>(m_lm, f_lm).
            euclidean (tp tfm (physical m_lm moving_spacing)) (physical f_lm fixed_spacing))
         (zip moving fixed)"

definition mean :: "real list \<Rightarrow> real" where
  "mean xs = sum_list xs / of_nat (length xs)"

definition std :: "real list \<Rightarrow> real" where
  "std xs = sqrt (mean (map (\<lambda>v. (v - mean xs)\<^sup>2) xs))"

text \<open>
  The summary of the errors; \<open>errors.min()\<close> of an empty array raises inside numpy.
\<close>

definition summary :: "real list \<Rightarrow> py_error + metrics" where
  "summary es =
     (if es = [] then Inl (LibraryError ''zero-size array to reduction operation'')
      else Inr \<lparr>errors = es, mean_error = mean es, std_error = std es,
                max_error = Max (set es), min_error = Min (set es)\<rparr>)"

definition lib :: "string + 'a \<Rightarrow> py_error + 'a" where
  "lib r = (case r of Inl msg \<Rightarrow> Inl (LibraryError msg) | Inr v \<Rightarrow> Inr v)"

definition landmark_registration ::
  "('img, 'simg, 'tfm) sitk \<Rightarrow> 'img \<Rightarrow> 'img \<Rightarrow> voxel list \<Rightarrow> voxel list \<Rightarrow> vec3 \<Rightarrow> vec3
     \<Rightarrow> string \<Rightarrow> py_error + ('img \<times> 'tfm \<times> metrics)" where
  "landmark_registration sitk moving_image fixed_image moving fixed moving_spacing
       fixed_spacing transform_type =
     (if length moving < required_landmarks transform_type
      then Inl (too_few_landmarks transform_type)
      else
        (case lib (get_image_from_array sitk moving_image moving_spacing) of
           Inl e \<Rightarrow> Inl e
         | Inr moving_sitk \<Rightarrow>
        (case lib (get_image_from_array sitk fixed_image fixed_spacing) of
           Inl e \<Rightarrow> Inl e
         | Inr fixed_sitk \<Rightarrow>
        (let moving_points =
               concat (map (\<lambda>(m_lm, f_lm). list3 (physical m_lm moving_spacing))
                           (zip moving fixed));
             fixed_points =
               concat (map (\<lambda>(m_lm, f_lm). list3 (physical f_lm fixed_spacing))
                           (zip moving fixed))
         in if transform_type \<noteq> ''affine'' \<and> transform_type \<noteq> ''similarity''
               \<and> transform_type \<noteq> ''rigid''
            then Inl (ValueError (''Unknown transform type: '' @ transform_type))
            else
              (case lib (landmark_initializer sitk transform_type fixed_points moving_points) of
                 Inl e \<Rightarrow> Inl e
               | Inr landmark_transform \<Rightarrow>
              (case summary (compute_landmark_error (transform_point sitk) moving fixed
                               landmark_transform moving_spacing fixed_spacing) of
                 Inl e \<Rightarrow> Inl e
               | Inr m \<Rightarrow>
              (case lib (resample sitk fixed_sitk moving_sitk landmark_transform) of
                 Inl e \<Rightarrow> Inl e
               | Inr registered_array \<Rightarrow>
                   Inr (registered_array, landmark_transform, m))))))))"

section \<open>midline\_alignment.py: MidlineAligner\<close>

subsection \<open>The numpy and scipy operations on 3-vectors\<close>

definition dot :: "vec3 \<Rightarrow> vec3 \<Rightarrow> real" where
  "dot u v = (case u of (u0, u1, u2) \<Rightarrow> (case v of (v0, v1, v2) \<Rightarrow> u0 * v0 + u1 * v1 + u2 * v2))"

definition cross :: "vec3 \<Rightarrow> vec3 \<Rightarrow> vec3" where
  "cross u v =
     (case u of (u0, u1, u2) \<Rightarrow>
        (case v of (v0, v1, v2) \<Rightarrow> (u1 * v2 - u2 * v1, u2 * v0 - u0 * v2, u0 * v1 - u1 * v0)))"

definition norm3 :: "vec3 \<Rightarrow> real" where
  "norm3 u = sqrt (dot u u)"

definition scale :: "real \<Rightarrow> vec3 \<Rightarrow> vec3" where
  "scale a u = (case u of (u0, u1, u2) \<Rightarrow> (a * u0, a * u1, a * u2))"

definition add3 :: "vec3 \<Rightarrow> vec3 \<Rightarrow> vec3" where
  "add3 u v = (case u of (u0, u1, u2) \<Rightarrow> (case v of (v0, v1, v2) \<Rightarrow> (u0 + v0, u1 + v1, u2 + v2)))"

definition neg3 :: "vec3 \<Rightarrow> vec3" where
  "neg3 u = scale (- 1) u"

text \<open>\<open>np.clip(v, lo, hi)\<close>.\<close>

definition clip :: "real \<Rightarrow> real \<Rightarrow> real \<Rightarrow> real" where
  "clip v lo hi = min hi (max lo v)"

definition degrees :: "real \<Rightarrow> real" where
  "degrees a = a * 180 / pi"

text \<open>
  \<open>Rotation.from_rotvec(rv).apply(v)\<close> of scipy, by its documented meaning: the rotation
  by the angle \<open>|rv|\<close> about the axis \<open>rv / |rv|\<close> (Rodrigues' formula), the identity
  for the zero vector.
\<close>

definition rotvec_apply :: "vec3 \<Rightarrow> vec3 \<Rightarrow> vec3" where
  "rotvec_apply rv v =
     (let angle = norm3 rv
      in if angle = 0 then v
         else
           (let k = scale (1 / angle) rv
            in add3 (add3 (scale (cos angle) v) (scale (sin angle) (cross k v)))
                    (scale (dot k v * (1 - cos angle)) k)))"

subsection \<open>fit\_midline\_plane\<close>

text \<open>
  \<open>midline_points\<close> maps \<open>(view, slice_idx)\<close> to the \<open>(row, col)\<close> clicks of that slice;
  the dict is kept as the list of its items, in insertion order.
\<close>

type_synonym midline_points = "((string \<times> int) \<times> (int \<times> int) list) list"

definition point_3d :: "string \<Rightarrow> int \<Rightarrow> int \<times> int \<Rightarrow> vec3 list" where
  "point_3d v slice_idx p =
     (case p of (row, col) \<Rightarrow>
        if v = ''axial'' then [(of_int col, of_int slice_idx, of_int row)]
        else if v = ''coronal'' then [(of_int col, of_int row, of_int slice_idx)]
        else if v = ''sagittal'' then [(of_int slice_idx, of_int col, of_int row)]
        else [])"

definition collect_points_3d :: "midline_points \<Rightarrow> vec3 list" where
  "collect_points_3d mp =
     concat (map (\<lambda>((v, slice_idx), points_2d). concat (map (point_3d v slice_idx) points_2d)) mp)"

text \<open>\<open>points_3d.mean(axis=0)\<close>.\<close>

definition mean_axis0 :: "vec3 list \<Rightarrow> vec3" where
  "mean_axis0 ps =
     (sum_list (map fst ps) / of_nat (length ps),
      sum_list (map (fst \<circ> snd) ps) / of_nat (length ps),
      sum_list (map (snd \<circ> snd) ps) / of_nat (length ps))"

record plane_params =
  normal :: vec3
  centroid :: vec3
  rotation_axis :: vec3
  rotation_angle :: real
  rotation_angle_deg :: real
  points_3d :: "vec3 list"

definition target_normal :: vec3 where
  "target_normal = (1, 0, 0)"

text \<open>
  The candidate rotation of the branch \<open>rotation_axis_norm > 1e-6\<close>: the normalized
  cross product and the arccos of the clipped dot product.
\<close>

definition candidate_axis :: "vec3 \<Rightarrow> vec3" where
  "candidate_axis n = scale (1 / norm3 (cross n target_normal)) (cross n target_normal)"

definition candidate_angle :: "vec3 \<Rightarrow> real" where
  "candidate_angle n = arccos (clip (dot n target_normal) (- 1) 1)"

text \<open>
  \<open>fit_midline_plane\<close>. The singular value decomposition is numpy's; \<open>svd_normal\<close> is
  the row \<open>vh[-1, :]\<close> it returns for the centered points. With no 3D point at all the
  decomposition raises.
\<close>

definition fit_midline_plane :: "(vec3 list \<Rightarrow> vec3) \<Rightarrow> midline_points \<Rightarrow> py_error + plane_params" where
  "fit_midline_plane svd_normal mp =
     (if length mp < 2 then Inl (ValueError ''Need at least 2 slices with midline points'')
      else
        (let ps = collect_points_3d mp
         in if ps = [] then Inl (LibraryError ''SVD of an empty array'')
            else
              (let c = mean_axis0 ps;
                   points_centered = map (\<lambda>p. add3 p (neg3 c)) ps;
                   n0 = svd_normal points_centered;
                   n = (if fst n0 < 0 then neg3 n0 else n0);
                   rotation_axis_norm = norm3 (cross n target_normal)
               in if rotation_axis_norm > 1 / 10 ^ 6 then
                    (let axis = candidate_axis n;
                         angle = candidate_angle n;
                         rotated_normal = rotvec_apply (scale angle axis) n;
                         dot_after = dot rotated_normal target_normal;
                         dot_before = dot n target_normal
                     in if dot_after < dot_before - 1 / 10 ^ 8 then
                          Inr \<lparr>normal = n, centroid = c, rotation_axis = neg3 axis,
                               rotation_angle = - angle, rotation_angle_deg = degrees (- angle),
                               points_3d = ps\<rparr>
                        else
                          Inr \<lparr>normal = n, centroid = c, rotation_axis = axis,
                               rotation_angle = angle, rotation_angle_deg = degrees angle,
                               points_3d = ps\<rparr>)
                  else
                    Inr \<lparr>normal = n, centroid = c, rotation_axis = (0, 0, 1),
                         rotation_angle = 0, rotation_angle_deg = 0, points_3d = ps\<rparr>)))"

subsection \<open>apply\_alignment\<close>

text \<open>
  A volume is a numpy array: its shape, its dtype and its values. The rotation itself
  (SimpleITK's resampling of the float image about the centroid, linear interpolation)
  is a parameter; its result is clipped and cast back to the original dtype.
\<close>

datatype dtype = UInt8 | UInt16 | OtherDtype string

record volume =
  vol_shape :: "int \<times> int \<times> int"
  vol_dtype :: dtype
  vol_data :: "real list"

text \<open>The angle that \<open>apply_alignment\<close> uses: negated once, and again on \<open>reverse\<close>.\<close>

definition effective_angle :: "plane_params \<Rightarrow> bool \<Rightarrow> real" where
  "effective_angle pp reverse =
     (let a = - rotation_angle pp in if reverse then - a else a)"

definition convert_back :: "(string \<Rightarrow> real \<Rightarrow> real) \<Rightarrow> dtype \<Rightarrow> real list \<Rightarrow> real list" where
  "convert_back astype dt aligned =
     (case dt of
        UInt16 \<Rightarrow> map (\<lambda>v. of_int \<lfloor>clip v 0 65535\<rfloor>) aligned
      | UInt8 \<Rightarrow> map (\<lambda>v. of_int \<lfloor>clip v 0 255\<rfloor>) aligned
      | OtherDtype d \<Rightarrow> map (astype d) aligned)"

definition apply_alignment ::
  "(volume \<Rightarrow> vec3 \<Rightarrow> vec3 \<Rightarrow> real \<Rightarrow> string + real list) \<Rightarrow> (string \<Rightarrow> real \<Rightarrow> real)
     \<Rightarrow> volume \<Rightarrow> plane_params \<Rightarrow> bool \<Rightarrow> py_error + volume" where
  "apply_alignment sitk_rotate astype img pp reverse =
     (let a = effective_angle pp reverse
      in if \<bar>a\<bar> < 1 / 1000 then Inr img
         else
           (case lib (sitk_rotate img (centroid pp) (rotation_axis pp) a) of
              Inl e \<Rightarrow> Inl e
            | Inr aligned \<Rightarrow>
                Inr (img\<lparr>vol_data := convert_back astype (vol_dtype img) aligned\<rparr>)))"

section \<open>Properties of the landmark selector\<close>

lemma onclick_pairing_invariant:
  "pairing_invariant s \<Longrightarrow> pairing_invariant (onclick s event)"
  by (auto simp add: pairing_invariant_def onclick_def Let_def)

lemma on_undo_pairing_invariant:
  "pairing_invariant s \<Longrightarrow> pairing_invariant (snd (on_undo s))"
  by (auto simp add: pairing_invariant_def on_undo_def Let_def)

lemma onclick_fixed_guard:
  "length (fixed_landmarks (onclick s event)) \<noteq> length (fixed_landmarks s)
     \<Longrightarrow> length (fixed_landmarks s) < length (moving_landmarks s)"
  by (auto simp add: onclick_def Let_def split: if_splits)

lemma on_undo_removes_pair_when_paired:
  assumes "moving_landmarks s \<noteq> []"
    and "length (fixed_landmarks s) = length (moving_landmarks s)"
  shows "moving_landmarks (snd (on_undo s)) = butlast (moving_landmarks s) \<and>
         fixed_landmarks (snd (on_undo s)) = butlast (fixed_landmarks s)"
proof -
  from assms have "fixed_landmarks s \<noteq> []" by auto
  with assms(1) show ?thesis by (simp add: on_undo_def Let_def)
qed

text \<open>
  Claim C10. The count invariant itself holds for every operation (the three lemmas
  above), and on a state of complete pairs undo removes the last pair. On a state with
  complete pairs and one unpaired moving landmark, however, \<open>on_undo\<close> takes its first
  branch: after the clicks moving, fixed, moving, fixed, moving it removes the unpaired
  third moving landmark together with the fixed landmark of the second pair, which is
  neither a complete pair nor a single unpaired moving landmark, and leaves the second
  moving landmark unpaired.
\<close>

theorem on_undo_unpaired_removes_fixed:
  "on_undo
     (onclick (onclick (onclick (onclick (onclick
        \<lparr>moving_landmarks = [], fixed_landmarks = [], landmark_names = [],
         moving_plots = [], fixed_plots = [], moving_slice = 5, fixed_slice = 7,
         view = ''Z'', moving_name = ''MicroCT'', fixed_name = ''Allen CCF''\<rparr>
        \<lparr>inaxes = Some AxMoving, button = 1, xdata = 1, ydata = 1\<rparr>)
        \<lparr>inaxes = Some AxFixed, button = 1, xdata = 1, ydata = 1\<rparr>)
        \<lparr>inaxes = Some AxMoving, button = 1, xdata = 2, ydata = 2\<rparr>)
        \<lparr>inaxes = Some AxFixed, button = 1, xdata = 2, ydata = 2\<rparr>)
        \<lparr>inaxes = Some AxMoving, button = 1, xdata = 3, ydata = 3\<rparr>)
   = (None,
      \<lparr>moving_landmarks = [(5, 1, 1), (5, 2, 2)], fixed_landmarks = [(7, 1, 1)],
       landmark_names = [''Point_1''],
       moving_plots = [\<lparr>marker = (1, 1), text_label = ''1''\<rparr>,
                       \<lparr>marker = (2, 2), text_label = ''2''\<rparr>],
       fixed_plots = [\<lparr>marker = (1, 1), text_label = ''1''\<rparr>],
       moving_slice = 5, fixed_slice = 7, view = ''Z'',
       moving_name = ''MicroCT'', fixed_name = ''Allen CCF''\<rparr>)"
  by (simp add: onclick_def on_undo_def click_landmark_def py_int_def str_int_def Let_def)

section \<open>Properties of landmark persistence\<close>

lemma comprehension_tuples:
  "comprehension tuple_of_json (map list_of_landmark lms) = Inr lms"
  by (induction lms) (auto simp add: list_of_landmark_def)

lemma comprehension_names:
  "comprehension name_of_json (map JStr ns) = Inr ns"
  by (induction ns) auto

text \<open>
  Claim C8. Loading what \<open>save_landmarks\<close> wrote, into any selector, succeeds and sets the
  moving and the fixed landmark list to exactly the saved lists: same elements, same
  order, same lengths (also when the moving list is longer than the fixed one). The
  names come back as well.
\<close>

theorem save_load_landmarks_roundtrip:
  "load_landmarks s' filepath (save_landmarks s filepath fs) =
     Inr (s'\<lparr>moving_landmarks := moving_landmarks s, fixed_landmarks := fixed_landmarks s,
            landmark_names := landmark_names s\<rparr>,
          moving_landmarks s, fixed_landmarks s)"
  by (simp add: load_landmarks_def save_landmarks_def landmarks_of_json_def names_of_json_def
      comprehension_tuples comprehension_names)

theorem save_load_landmarks_roundtrip_witness:
  "load_landmarks
     \<lparr>moving_landmarks = [], fixed_landmarks = [], landmark_names = [],
      moving_plots = [], fixed_plots = [], moving_slice = 0, fixed_slice = 0,
      view = ''Z'', moving_name = ''MicroCT'', fixed_name = ''Allen CCF''\<rparr>
     ''landmarks.json''
     (save_landmarks
        \<lparr>moving_landmarks = [(5, 1, 1), (5, 2, 2), (6, 0, 9)],
         fixed_landmarks = [(7, 1, 1), (7, 2, 3)],
         landmark_names = [''Point_1'', ''Point_2''],
         moving_plots = [], fixed_plots = [], moving_slice = 5, fixed_slice = 7,
         view = ''Y'', moving_name = ''MicroCT'', fixed_name = ''Allen CCF''\<rparr>
        ''landmarks.json'' Map.empty)
   = Inr (\<lparr>moving_landmarks = [(5, 1, 1), (5, 2, 2), (6, 0, 9)],
           fixed_landmarks = [(7, 1, 1), (7, 2, 3)],
           landmark_names = [''Point_1'', ''Point_2''],
           moving_plots = [], fixed_plots = [], moving_slice = 0, fixed_slice = 0,
           view = ''Z'', moving_name = ''MicroCT'', fixed_name = ''Allen CCF''\<rparr>,
          [(5, 1, 1), (5, 2, 2), (6, 0, 9)], [(7, 1, 1), (7, 2, 3)])"
  using save_load_landmarks_roundtrip
    [of "\<lparr>moving_landmarks = [], fixed_landmarks = [], landmark_names = [],
      moving_plots = [], fixed_plots = [], moving_slice = 0, fixed_slice = 0,
      view = ''Z'', moving_name = ''MicroCT'', fixed_name = ''Allen CCF''\<rparr>"
      "''landmarks.json''"
      "\<lparr>moving_landmarks = [(5, 1, 1), (5, 2, 2), (6, 0, 9)],
         fixed_landmarks = [(7, 1, 1), (7, 2, 3)],
         landmark_names = [''Point_1'', ''Point_2''],
         moving_plots = [], fixed_plots = [], moving_slice = 5, fixed_slice = 7,
         view = ''Y'', moving_name = ''MicroCT'', fixed_name = ''Allen CCF''\<rparr>"
      Map.empty]
  by simp

section \<open>Properties of landmark registration\<close>

text \<open>
  Claim C1. For the kinds rigid, similarity and affine, \<open>landmark_registration\<close> ends in
  a ValueError exactly when the number of landmark pairs it was given (which it takes
  to be \<open>len(moving_landmarks)\<close>, the number it prints as the number of pairs) is below
  the minimum of the kind: 3, 3 and 4. The error is then the one of the landmark count
  check; with at least that many pairs that branch is not taken, and whatever the
  library calls do afterwards is no ValueError of the function.
\<close>

theorem landmark_registration_too_few:
  assumes "transform_type = ''rigid'' \<or> transform_type = ''similarity''
             \<or> transform_type = ''affine''"
  shows "((\<exists>msg. landmark_registration sitk moving_image fixed_image moving fixed
                    moving_spacing fixed_spacing transform_type = Inl (ValueError msg))
          \<longleftrightarrow> length moving < required_landmarks transform_type) \<and>
         (length moving < required_landmarks transform_type \<longrightarrow>
            landmark_registration sitk moving_image fixed_image moving fixed
              moving_spacing fixed_spacing transform_type
              = Inl (too_few_landmarks transform_type)) \<and>
         required_landmarks transform_type = (if transform_type = ''affine'' then 4 else 3)"
  using assms
  by (auto simp add: landmark_registration_def too_few_landmarks_def required_landmarks_def
      min_landmarks_def lib_def summary_def Let_def split: sum.splits if_splits)

text \<open>
  Witness for C1: three pairs, with library calls that all succeed. An affine request
  is refused, a rigid one is not.
\<close>

theorem landmark_registration_too_few_witness:
  "landmark_registration
     \<lparr>get_image_from_array = (\<lambda>a sp. Inr a), landmark_initializer = (\<lambda>k f m. Inr ()),
      transform_point = (\<lambda>t p. p), resample = (\<lambda>f m t. Inr m)\<rparr>
     (0 :: nat) 0 [(0, 0, 0), (4, 0, 0), (0, 4, 0)] [(0, 0, 0), (4, 0, 0), (0, 4, 0)]
     (1 / 40, 1 / 40, 1 / 40) (1 / 40, 1 / 40, 1 / 40) ''affine''
   = Inl (ValueError ''Need at least 4 landmark pairs for affine registration'') \<and>
   \<not> (\<exists>msg. landmark_registration
     \<lparr>get_image_from_array = (\<lambda>a sp. Inr a), landmark_initializer = (\<lambda>k f m. Inr ()),
      transform_point = (\<lambda>t p. p), resample = (\<lambda>f m t. Inr m)\<rparr>
     (0 :: nat) 0 [(0, 0, 0), (4, 0, 0), (0, 4, 0)] [(0, 0, 0), (4, 0, 0), (0, 4, 0)]
     (1 / 40, 1 / 40, 1 / 40) (1 / 40, 1 / 40, 1 / 40) ''rigid''
   = Inl (ValueError msg))"
proof
  show "landmark_registration
     \<lparr>get_image_from_array = (\<lambda>a sp. Inr a), landmark_initializer = (\<lambda>k f m. Inr ()),
      transform_point = (\<lambda>t p. p), resample = (\<lambda>f m t. Inr m)\<rparr>
     (0 :: nat) 0 [(0, 0, 0), (4, 0, 0), (0, 4, 0)] [(0, 0, 0), (4, 0, 0), (0, 4, 0)]
     (1 / 40, 1 / 40, 1 / 40) (1 / 40, 1 / 40, 1 / 40) ''affine''
   = Inl (ValueError ''Need at least 4 landmark pairs for affine registration'')"
    using landmark_registration_too_few
      [of "''affine''"
        "\<lparr>get_image_from_array = (\<lambda>a sp. Inr a), landmark_initializer = (\<lambda>k f m. Inr ()),
          transform_point = (\<lambda>t p. p), resample = (\<lambda>f m t. Inr m)\<rparr>"
        "0 :: nat" 0 "[(0, 0, 0), (4, 0, 0), (0, 4, 0)]" "[(0, 0, 0), (4, 0, 0), (0, 4, 0)]"
        "(1 / 40, 1 / 40, 1 / 40)" "(1 / 40, 1 / 40, 1 / 40)"]
    by (simp add: too_few_landmarks_def min_landmarks_def str_int_def)
next
  show "\<not> (\<exists>msg. landmark_registration
     \<lparr>get_image_from_array = (\<lambda>a sp. Inr a), landmark_initializer = (\<lambda>k f m. Inr ()),
      transform_point = (\<lambda>t p. p), resample = (\<lambda>f m t. Inr m)\<rparr>
     (0 :: nat) 0 [(0, 0, 0), (4, 0, 0), (0, 4, 0)] [(0, 0, 0), (4, 0, 0), (0, 4, 0)]
     (1 / 40, 1 / 40, 1 / 40) (1 / 40, 1 / 40, 1 / 40) ''rigid''
   = Inl (ValueError msg))"
    using landmark_registration_too_few
      [of "''rigid''"
        "\<lparr>get_image_from_array = (\<lambda>a sp. Inr a), landmark_initializer = (\<lambda>k f m. Inr ()),
          transform_point = (\<lambda>t p. p), resample = (\<lambda>f m t. Inr m)\<rparr>"
        "0 :: nat" 0 "[(0, 0, 0), (4, 0, 0), (0, 4, 0)]" "[(0, 0, 0), (4, 0, 0), (0, 4, 0)]"
        "(1 / 40, 1 / 40, 1 / 40)" "(1 / 40, 1 / 40, 1 / 40)"]
    by simp
qed

section \<open>Properties of the ontology walk\<close>

lemma hierarchy_loop_length:
  "length (hierarchy_loop ont max_depth current_id dep hierarchy)
     \<le> length hierarchy + nat (max_depth - dep)"
proof (induction ont max_depth current_id dep hierarchy rule: hierarchy_loop.induct)
  case (1 ont max_depth current_id dep hierarchy)
  show ?case
  proof (cases current_id)
    case None
    then show ?thesis by simp
  next
    case (Some c)
    show ?thesis
    proof (cases "dep < max_depth")
      case False
      with Some show ?thesis by simp
    next
      case True
      show ?thesis
      proof (cases "parent_id (get_region_info ont c) = Some 997")
        case True
        with Some \<open>dep < max_depth\<close> show ?thesis by simp
      next
        case False
        from "1.IH" [OF Some \<open>dep < max_depth\<close> False]
        have "length (hierarchy_loop ont max_depth (parent_id (get_region_info ont c)) (dep + 1)
                 (hierarchy @ [name (get_region_info ont c)]))
              \<le> length (hierarchy @ [name (get_region_info ont c)]) + nat (max_depth - (dep + 1))" .
        with Some \<open>dep < max_depth\<close> False show ?thesis by simp
      qed
    qed
  qed
qed

lemma hierarchy_loop_stop:
  assumes "dep < max_depth"
    and "parent_id (get_region_info ont c) = None \<or> parent_id (get_region_info ont c) = Some 997"
  shows "hierarchy_loop ont max_depth (Some c) dep hierarchy
           = hierarchy @ [name (get_region_info ont c)]"
  using assms by auto

text \<open>
  Claim C9. \<open>get_region_hierarchy\<close> is a total function (its loop terminates on every
  ontology map, also one with missing records or cyclic parent links, because \<open>depth\<close>
  grows towards \<open>max_depth\<close>), and it returns at most \<open>max_depth\<close> names. Wherever the walk
  stands on a region whose parent pointer is null or the root id 997, with depth budget
  left, it appends that region's name and stops.
\<close>

theorem get_region_hierarchy_bounded:
  "length (get_region_hierarchy ont rid max_depth) \<le> nat max_depth \<and>
   (dep < max_depth \<and>
    (parent_id (get_region_info ont c) = None \<or> parent_id (get_region_info ont c) = Some 997)
    \<longrightarrow> hierarchy_loop ont max_depth (Some c) dep hierarchy
          = hierarchy @ [name (get_region_info ont c)])"
proof
  have "length (hierarchy_loop ont max_depth (Some rid) 0 []) \<le> length ([] :: string list) + nat (max_depth - 0)"
    by (rule hierarchy_loop_length)
  then show "length (get_region_hierarchy ont rid max_depth) \<le> nat max_depth"
    by (simp add: get_region_hierarchy_def)
next
  show "dep < max_depth \<and>
    (parent_id (get_region_info ont c) = None \<or> parent_id (get_region_info ont c) = Some 997)
    \<longrightarrow> hierarchy_loop ont max_depth (Some c) dep hierarchy
          = hierarchy @ [name (get_region_info ont c)]"
    using hierarchy_loop_stop by blast
qed

text \<open>
  Witness for C9: an ontology whose two records point at each other (a cycle), walked
  from region 1 with \<open>max_depth = 3\<close>, and a walk standing on region 2 whose parent is
  replaced by the root id.
\<close>

theorem get_region_hierarchy_bounded_witness:
  "length (get_region_hierarchy
      [1 \<mapsto> \<lparr>region_id = 1, name = ''a'', acronym = ''A'', parent_id = Some 2,
              color_hex = ''FFFFFF'', depth = Some 1\<rparr>,
       2 \<mapsto> \<lparr>region_id = 2, name = ''b'', acronym = ''B'', parent_id = Some 1,
              color_hex = ''FFFFFF'', depth = Some 2\<rparr>] 1 3) \<le> nat 3 \<and>
   hierarchy_loop
      [2 \<mapsto> \<lparr>region_id = 2, name = ''b'', acronym = ''B'', parent_id = Some 997,
              color_hex = ''FFFFFF'', depth = Some 2\<rparr>] 10 (Some 2) 1 [''a'']
     = [''a'', ''b'']"
proof
  show "length (get_region_hierarchy
      [1 \<mapsto> \<lparr>region_id = 1, name = ''a'', acronym = ''A'', parent_id = Some 2,
              color_hex = ''FFFFFF'', depth = Some 1\<rparr>,
       2 \<mapsto> \<lparr>region_id = 2, name = ''b'', acronym = ''B'', parent_id = Some 1,
              color_hex = ''FFFFFF'', depth = Some 2\<rparr>] 1 3) \<le> nat 3"
    using get_region_hierarchy_bounded by blast
next
  show "hierarchy_loop
      [2 \<mapsto> \<lparr>region_id = 2, name = ''b'', acronym = ''B'', parent_id = Some 997,
              color_hex = ''FFFFFF'', depth = Some 2\<rparr>] 10 (Some 2) 1 [''a'']
     = [''a'', ''b'']"
    using get_region_hierarchy_bounded
      [of "[2 \<mapsto> \<lparr>region_id = 2, name = ''b'', acronym = ''B'', parent_id = Some 997,
              color_hex = ''FFFFFF'', depth = Some 2\<rparr>]" 0 10 1 2 "[''a'']"]
    by (simp add: get_region_info_def)
qed

section \<open>Properties of the point mapping and the region lookup\<close>

text \<open>
  Claim C6. With \<open>use_registered\<close> set, \<open>transform_point_to_ccf\<close> returns the input
  triple \<open>(z, y, x)\<close> itself: no spacing conversion, transform or rounding is applied.
\<close>

theorem transform_point_to_ccf_registered:
  "use_registered t \<Longrightarrow> transform_point_to_ccf t z y x = (z, y, x)"
  by (simp add: transform_point_to_ccf_def)

theorem transform_point_to_ccf_registered_witness:
  "use_registered
     \<lparr>ccf_annotation = None, ontology = Map.empty,
      transform = Some (\<lambda>p. Inr (0, 0, 0)), spacing = 1 / 40, use_registered = True\<rparr> \<and>
   transform_point_to_ccf
     \<lparr>ccf_annotation = None, ontology = Map.empty,
      transform = Some (\<lambda>p. Inr (0, 0, 0)), spacing = 1 / 40, use_registered = True\<rparr>
     5 (- 3) 7 = (5, - 3, 7)"
  using transform_point_to_ccf_registered
    [of "\<lparr>ccf_annotation = None, ontology = Map.empty,
      transform = Some (\<lambda>p. Inr (0, 0, 0)), spacing = 1 / 40, use_registered = True\<rparr>"
      5 "- 3" 7]
  by simp

text \<open>
  Claim C2. A reference-space coordinate with an index that is negative or not below
  the annotation volume's shape is classified Out of Bounds, as a returned value and
  whatever the volume stores; an in-bounds coordinate whose stored region id is 0 is
  classified Outside Brain. This holds for the lookup at a reference coordinate and so
  for \<open>get_region_at_point\<close> at the coordinate that \<open>transform_point_to_ccf\<close> yields.
\<close>

theorem get_region_at_point_classification:
  assumes "ccf_annotation t = Some ann"
    and "transform_point_to_ccf t z y x = (z_ccf, y_ccf, x_ccf)"
    and "shape ann = (s0, s1, s2)"
  shows "(z_ccf < 0 \<or> z_ccf \<ge> s0 \<or> y_ccf < 0 \<or> y_ccf \<ge> s1 \<or> x_ccf < 0 \<or> x_ccf \<ge> s2
          \<longrightarrow> get_region_at_point t z y x = out_of_bounds (z_ccf, y_ccf, x_ccf)) \<and>
         (0 \<le> z_ccf \<and> z_ccf < s0 \<and> 0 \<le> y_ccf \<and> y_ccf < s1 \<and> 0 \<le> x_ccf \<and> x_ccf < s2 \<and>
          voxels ann z_ccf y_ccf x_ccf = 0
          \<longrightarrow> get_region_at_point t z y x = outside_brain (z_ccf, y_ccf, x_ccf))"
  using assms by (auto simp add: get_region_at_point_def lookup_ccf_def)

text \<open>
  Witness for C2: a 2 x 2 x 2 annotation volume storing 7 everywhere except 0 at the
  origin, queried in registered mode at (9, 0, 0) and at (0, 0, 0).
\<close>

theorem get_region_at_point_classification_witness:
  "get_region_at_point
     \<lparr>ccf_annotation =
        Some \<lparr>shape = (2, 2, 2), voxels = (\<lambda>z y x. if z = 0 \<and> y = 0 \<and> x = 0 then 0 else 7)\<rparr>,
      ontology = Map.empty, transform = None, spacing = 1 / 40, use_registered = True\<rparr>
     9 0 0 = out_of_bounds (9, 0, 0) \<and>
   get_region_at_point
     \<lparr>ccf_annotation =
        Some \<lparr>shape = (2, 2, 2), voxels = (\<lambda>z y x. if z = 0 \<and> y = 0 \<and> x = 0 then 0 else 7)\<rparr>,
      ontology = Map.empty, transform = None, spacing = 1 / 40, use_registered = True\<rparr>
     0 0 0 = outside_brain (0, 0, 0)"
proof
  show "get_region_at_point
     \<lparr>ccf_annotation =
        Some \<lparr>shape = (2, 2, 2), voxels = (\<lambda>z y x. if z = 0 \<and> y = 0 \<and> x = 0 then 0 else 7)\<rparr>,
      ontology = Map.empty, transform = None, spacing = 1 / 40, use_registered = True\<rparr>
     9 0 0 = out_of_bounds (9, 0, 0)"
    using get_region_at_point_classification
      [of "\<lparr>ccf_annotation =
        Some \<lparr>shape = (2, 2, 2), voxels = (\<lambda>z y x. if z = 0 \<and> y = 0 \<and> x = 0 then 0 else 7)\<rparr>,
      ontology = Map.empty, transform = None, spacing = 1 / 40, use_registered = True\<rparr>"
        "\<lparr>shape = (2, 2, 2), voxels = (\<lambda>z y x. if z = 0 \<and> y = 0 \<and> x = 0 then 0 else 7)\<rparr>"
        9 0 0 9 0 0 2 2 2]
    by (simp add: transform_point_to_ccf_def)
next
  show "get_region_at_point
     \<lparr>ccf_annotation =
        Some \<lparr>shape = (2, 2, 2), voxels = (\<lambda>z y x. if z = 0 \<and> y = 0 \<and> x = 0 then 0 else 7)\<rparr>,
      ontology = Map.empty, transform = None, spacing = 1 / 40, use_registered = True\<rparr>
     0 0 0 = outside_brain (0, 0, 0)"
    using get_region_at_point_classification
      [of "\<lparr>ccf_annotation =
        Some \<lparr>shape = (2, 2, 2), voxels = (\<lambda>z y x. if z = 0 \<and> y = 0 \<and> x = 0 then 0 else 7)\<rparr>,
      ontology = Map.empty, transform = None, spacing = 1 / 40, use_registered = True\<rparr>"
        "\<lparr>shape = (2, 2, 2), voxels = (\<lambda>z y x. if z = 0 \<and> y = 0 \<and> x = 0 then 0 else 7)\<rparr>"
        0 0 0 0 0 0 2 2 2]
    by (simp add: transform_point_to_ccf_def)
qed

end
